theory Spec2Isabelle
  imports Complex_Main
begin

section \<open>The frequency sensor neuron and the multiplicative STDP synapse\<close>

text \<open>
  A shallow embedding of \<^verbatim>\<open>iaf_freq_sensor.cpp\<close> and \<^verbatim>\<open>stdp_connection_multi.h\<close>.

  Numbers. In the first embedding a \<^verbatim>\<open>double_t\<close> is modelled by a \<^typ>\<open>real\<close>: its
  statements are about finite values and exact arithmetic, so rounding and overflow are
  not modelled, and the IEEE values infinity and NaN are no values of a field. Where an operation of the source
  leaves the finite numbers on finite operands (a division by zero, \<^verbatim>\<open>std::pow\<close> of a
  negative base to a fractional exponent) the model returns the error \<open>Infinite\<close> or
  \<open>NotANumber\<close> instead of HOL's arbitrary real. The integer counters \<^verbatim>\<open>r_\<close> and
  \<^verbatim>\<open>RefractoryCounts_\<close>, steps and lags are \<^typ>\<open>int\<close>. The statements that must hold
  with NaN and the infinities as well (the lower bound of the traces, the range of the
  weight) are made about a second embedding of the same code over doubles, further below.

  Names. The source writes \<^verbatim>\<open>P_.Tau_\<close>, \<^verbatim>\<open>S_.y3_\<close>, \<^verbatim>\<open>V_.P33_\<close>, \<^verbatim>\<open>B_.currents_\<close>; the
  record fields are named \<open>P_Tau\<close>, \<open>S_y3\<close>, \<open>V_P33\<close>, \<open>B_currents\<close>.
\<close>

subsection \<open>Parameters, state, internal variables\<close>

record Parameters =
  P_Tau :: real
  P_C :: real
  P_TauR :: real
  P_U0 :: real
  P_I_e :: real
  P_V_reset :: real
  P_Theta :: real
  P_LowerBound :: real
  P_Sigma :: real
  P_Ti :: real
  P_num_of_receptors :: int

record State =
  S_y0 :: real
  S_y1 :: real
  S_y2 :: real
  S_y3 :: real
  S_currents :: real
  S_ti :: real
  S_r :: int

text \<open>
  \<^verbatim>\<open>Variables_\<close>: the propagators that \<^verbatim>\<open>calibrate\<close> derives from the parameters and the
  resolution. \<^verbatim>\<open>update\<close> only reads them, so the theorems below hold for every value of
  them.
\<close>

record Variables =
  V_P21 :: real
  V_P22 :: real
  V_P33 :: real
  V_P31 :: real
  V_RefractoryCounts :: int

subsection \<open>The status dictionary\<close>

text \<open>
  A \<^verbatim>\<open>DictionaryDatum\<close> maps names to typed tokens. \<^verbatim>\<open>def<T>(d, n, v)\<close> stores a token of
  type \<^verbatim>\<open>T\<close> under \<^verbatim>\<open>n\<close>. \<^verbatim>\<open>updateValue<double>(d, n, x)\<close> leaves \<^verbatim>\<open>x\<close> alone when \<^verbatim>\<open>n\<close>
  is absent, assigns the stored double when it is present, and raises \<^verbatim>\<open>TypeMismatch\<close> when
  the token under \<^verbatim>\<open>n\<close> is not a double. Both belong to the simulator's library; the
  names are those of its \<^verbatim>\<open>names\<close> namespace.
\<close>

datatype datum = DoubleDatum real | IntegerDatum int

type_synonym dictionary = "string \<rightharpoonup> datum"

datatype error =
  BadProperty string
  | TypeMismatch
  | AssertionFailed
  | NotANumber
  | Infinite

definition def_double :: "dictionary \<Rightarrow> string \<Rightarrow> real \<Rightarrow> dictionary" where
  "def_double d n v = d(n \<mapsto> DoubleDatum v)"

definition def_int :: "dictionary \<Rightarrow> string \<Rightarrow> int \<Rightarrow> dictionary" where
  "def_int d n v = d(n \<mapsto> IntegerDatum v)"

definition updateValue :: "dictionary \<Rightarrow> string \<Rightarrow> real \<Rightarrow> error + real" where
  "updateValue d n x =
     (case d n of
        None \<Rightarrow> Inr x
      | Some (DoubleDatum v) \<Rightarrow> Inr v
      | Some (IntegerDatum i) \<Rightarrow> Inl TypeMismatch)"

subsection \<open>\<^verbatim>\<open>Parameters_::get\<close> and \<^verbatim>\<open>Parameters_::set\<close>\<close>

definition Parameters_get :: "dictionary \<Rightarrow> Parameters \<Rightarrow> dictionary" where
  "Parameters_get d p =
     (let d = def_double d ''E_L'' (P_U0 p);
          d = def_double d ''I_e'' (P_I_e p);
          d = def_double d ''V_th'' (P_Theta p + P_U0 p);
          d = def_double d ''V_reset'' (P_V_reset p + P_U0 p);
          d = def_double d ''V_min'' (P_LowerBound p + P_U0 p);
          d = def_double d ''C_m'' (P_C p);
          d = def_double d ''tau_m'' (P_Tau p);
          d = def_double d ''t_ref'' (P_TauR p);
          d = def_double d ''Sigma'' (P_Sigma p);
          d = def_double d ''Ti'' (P_Ti p);
          d = def_int d ''n_synapses'' (P_num_of_receptors p)
      in d)"

text \<open>
  \<^verbatim>\<open>Parameters_::set\<close> assigns to the fields of the object it is called on and validates
  afterwards. The model returns the fields of that object as the call leaves them, together
  with the outcome: the exception raised, or the returned \<^verbatim>\<open>delta_EL\<close>.
\<close>

definition validate :: "Parameters \<Rightarrow> real \<Rightarrow> error + real" where
  "validate p delta_EL =
     (if P_C p \<le> 0 then Inl (BadProperty ''Capacitance must be > 0.'')
      else if P_Tau p \<le> 0 then Inl (BadProperty ''Membrane time constant must be > 0.'')
      else if P_Ti p \<le> 0 then Inl (BadProperty ''Integration time must be > 0.'')
      else if P_TauR p < 0 then
        Inl (BadProperty ''The refractory time t_ref can't be negative.'')
      else Inr delta_EL)"

definition Parameters_set :: "dictionary \<Rightarrow> Parameters \<Rightarrow> Parameters \<times> (error + real)" where
  "Parameters_set d p =
     (let ELold = P_U0 p in
      case updateValue d ''E_L'' (P_U0 p) of Inl e \<Rightarrow> (p, Inl e) | Inr v \<Rightarrow>
     (let p = p\<lparr>P_U0 := v\<rparr>; delta_EL = P_U0 p - ELold in
      case updateValue d ''V_reset'' (P_V_reset p) of Inl e \<Rightarrow> (p, Inl e) | Inr v \<Rightarrow>
     (let p = p\<lparr>P_V_reset := v\<rparr> in
      case updateValue d ''V_th'' (P_Theta p) of Inl e \<Rightarrow> (p, Inl e) | Inr v \<Rightarrow>
     (let p = p\<lparr>P_Theta := v\<rparr> in
      case updateValue d ''V_min'' (P_LowerBound p) of Inl e \<Rightarrow> (p, Inl e) | Inr v \<Rightarrow>
     (let p = p\<lparr>P_LowerBound := v\<rparr> in
      case updateValue d ''I_e'' (P_I_e p) of Inl e \<Rightarrow> (p, Inl e) | Inr v \<Rightarrow>
     (let p = p\<lparr>P_I_e := v\<rparr> in
      case updateValue d ''C_m'' (P_C p) of Inl e \<Rightarrow> (p, Inl e) | Inr v \<Rightarrow>
     (let p = p\<lparr>P_C := v\<rparr> in
      case updateValue d ''tau_m'' (P_Tau p) of Inl e \<Rightarrow> (p, Inl e) | Inr v \<Rightarrow>
     (let p = p\<lparr>P_Tau := v\<rparr> in
      case updateValue d ''t_ref'' (P_TauR p) of Inl e \<Rightarrow> (p, Inl e) | Inr v \<Rightarrow>
     (let p = p\<lparr>P_TauR := v\<rparr> in
      case updateValue d ''Sigma'' (P_Sigma p) of Inl e \<Rightarrow> (p, Inl e) | Inr v \<Rightarrow>
     (let p = p\<lparr>P_Sigma := v\<rparr> in
      case updateValue d ''Ti'' (P_Ti p) of Inl e \<Rightarrow> (p, Inl e) | Inr v \<Rightarrow>
     (let p = p\<lparr>P_Ti := v\<rparr> in
      (p, validate p delta_EL))))))))))))"

subsection \<open>\<^verbatim>\<open>update\<close>\<close>

text \<open>
  The ring buffers, read by \<^verbatim>\<open>get_value(lag)\<close>: \<^verbatim>\<open>B_.spikes_[0]\<close>, \<^verbatim>\<open>B_.spikes_[1]\<close> and
  \<^verbatim>\<open>B_.currents_\<close>. Every slot is read once in a call of \<^verbatim>\<open>update\<close>, so that the read
  clears the slot is not modelled.
\<close>

record Buffers =
  B_spikes0 :: "int \<Rightarrow> real"
  B_spikes1 :: "int \<Rightarrow> real"
  B_currents :: "int \<Rightarrow> real"

text \<open>
  What a node shows to the outside: its state, the lags of the spike events it handed to
  \<^verbatim>\<open>network()->send\<close>, the steps it passed to \<^verbatim>\<open>set_spiketime\<close>, and the calls of
  \<^verbatim>\<open>B_.logger_.record_data\<close> (the step, and the state the logger reads its recordables
  from).
\<close>

record Node =
  N_S :: State
  N_sent :: "int list"
  N_spiketimes :: "int list"
  N_logged :: "(int \<times> State) list"

text \<open>\<^verbatim>\<open>Time(Time::step(n)).get_ms()\<close> at resolution \<open>h\<close>.\<close>

definition get_ms :: "real \<Rightarrow> int \<Rightarrow> real" where
  "get_ms h n = of_int n * h"

definition update_currents :: "Parameters \<Rightarrow> Variables \<Rightarrow> real \<Rightarrow> State \<Rightarrow> State" where
  "update_currents P V t S =
     (let tt_s = t - S_ti S - P_Ti P / 2;
          tt_s = V_P22 V * tt_s * tt_s
      in S\<lparr>S_currents := S_y0 S * V_P21 V * (1 + tt_s) * exp (tt_s / 2)\<rparr>)"

text \<open>Lines 271 to 289: the two receptors, receptor 0 first.\<close>

definition drain_spikes :: "Parameters \<Rightarrow> real \<Rightarrow> real \<Rightarrow> real \<Rightarrow> State \<Rightarrow> State" where
  "drain_spikes P t sp0 sp1 S =
     (let S = (if sp0 > 1 / 10
               then S\<lparr>S_y1 := 0, S_y2 := 0, S_currents := 0, S_ti := t\<rparr> else S);
          S = (if sp1 > 1 / 10
               then S\<lparr>S_y3 := P_V_reset P, S_y1 := 1\<rparr> else S)
      in S)"

text \<open>Lines 295 to 304: the propagators and the integration of \<open>y2\<close>.\<close>

definition dynamics :: "Parameters \<Rightarrow> Variables \<Rightarrow> real \<Rightarrow> real \<Rightarrow> State \<Rightarrow> State" where
  "dynamics P V h t S =
     (let S = S\<lparr>S_y3 := V_P33 V * S_y3 S + V_P31 V * S_y1 S * \<bar>S_y2 S\<bar>\<rparr>;
          S = S\<lparr>S_y1 := V_P33 V * S_y1 S\<rparr>;
          dk = S_currents S;
          S = update_currents P V (t + h / 2) S;
          dk = dk + 4 * S_currents S;
          S = update_currents P V (t + h) S;
          dk = dk + S_currents S
      in S\<lparr>S_y2 := S_y2 S + dk * h / 6\<rparr>)"

text \<open>Lines 307 to 309.\<close>

definition lower_bound :: "Parameters \<Rightarrow> State \<Rightarrow> State" where
  "lower_bound P S =
     (let S = S\<lparr>S_y3 := (if S_y3 S < P_LowerBound P then P_LowerBound P else S_y3 S)\<rparr>;
          S = S\<lparr>S_y2 := (if S_y2 S < P_LowerBound P then P_LowerBound P else S_y2 S)\<rparr>;
          S = S\<lparr>S_y1 := (if S_y1 S < P_LowerBound P then P_LowerBound P else S_y1 S)\<rparr>
      in S)"

text \<open>Lines 292 to 313: not refractory, or refractory.\<close>

definition advance :: "Parameters \<Rightarrow> Variables \<Rightarrow> real \<Rightarrow> real \<Rightarrow> State \<Rightarrow> State" where
  "advance P V h t S =
     (if S_r S = 0 then lower_bound P (dynamics P V h t S)
      else S\<lparr>S_r := S_r S - 1\<rparr>)"

text \<open>Line 315: the test for a threshold crossing, and lines 317 to 320: the reset.\<close>

definition crossing :: "Parameters \<Rightarrow> real \<Rightarrow> State \<Rightarrow> bool" where
  "crossing P Vm0 S = (Vm0 < P_Theta P \<and> S_y3 S \<ge> P_Theta P)"

definition reset :: "Parameters \<Rightarrow> Variables \<Rightarrow> State \<Rightarrow> State" where
  "reset P V S = S\<lparr>S_r := V_RefractoryCounts V, S_y3 := P_U0 P, S_y2 := 0, S_y1 := 0\<rparr>"

text \<open>The body of the loop over \<open>lag\<close>, lines 270 to 334.\<close>

definition update_step ::
  "Parameters \<Rightarrow> Variables \<Rightarrow> real \<Rightarrow> Buffers \<Rightarrow> int \<Rightarrow> int \<Rightarrow> Node \<Rightarrow> Node" where
  "update_step P V h B origin lag N =
     (let t = get_ms h (origin + lag + 1);
          S = drain_spikes P t (B_spikes0 B lag) (B_spikes1 B lag) (N_S N);
          Vm0 = S_y3 S;
          S = advance P V h t S;
          fired = crossing P Vm0 S;
          S = (if fired then reset P V S else S);
          N = (if fired
               then N\<lparr>N_spiketimes := N_spiketimes N @ [origin + lag + 1],
                      N_sent := N_sent N @ [lag]\<rparr>
               else N);
          S = S\<lparr>S_y0 := B_currents B lag\<rparr>
      in N\<lparr>N_S := S, N_logged := N_logged N @ [(origin + lag, S)]\<rparr>)"

fun update_loop ::
  "Parameters \<Rightarrow> Variables \<Rightarrow> real \<Rightarrow> Buffers \<Rightarrow> int \<Rightarrow> int list \<Rightarrow> Node \<Rightarrow> Node" where
  "update_loop P V h B origin [] N = N"
| "update_loop P V h B origin (lag # lags) N =
     update_loop P V h B origin lags (update_step P V h B origin lag N)"

text \<open>
  \<^verbatim>\<open>update(origin, from, to)\<close> with its two assertions; \<open>min_delay\<close> is
  \<^verbatim>\<open>Scheduler::get_min_delay()\<close>.
\<close>

definition update ::
  "Parameters \<Rightarrow> Variables \<Rightarrow> real \<Rightarrow> int \<Rightarrow> Buffers \<Rightarrow> int \<Rightarrow> int \<Rightarrow> int \<Rightarrow> Node
     \<Rightarrow> error + Node" where
  "update P V h min_delay B origin from to N =
     (if \<not> (to \<ge> 0 \<and> from < min_delay) then Inl AssertionFailed
      else if \<not> from < to then Inl AssertionFailed
      else Inr (update_loop P V h B origin [from..to - 1] N))"

subsection \<open>\<^verbatim>\<open>calibrate\<close>\<close>

text \<open>
  The propagators of \<^verbatim>\<open>calibrate\<close> at resolution \<open>h\<close>. \<open>refractory_steps\<close> is
  \<^verbatim>\<open>Time(Time::ms(P_.TauR_)).get_steps()\<close>, a conversion of the simulator. The square root
  of a negative \<^verbatim>\<open>Sigma_\<close> is NaN, and a zero \<^verbatim>\<open>Sigma_\<close>, \<^verbatim>\<open>Tau_\<close> or \<^verbatim>\<open>C_\<close> is divided by. The
  buffers that \<^verbatim>\<open>calibrate\<close> resizes are not modelled.
\<close>

definition calibrate :: "Parameters \<Rightarrow> real \<Rightarrow> int \<Rightarrow> error + Variables" where
  "calibrate P h refractory_steps =
     (if P_Sigma P < 0 then Inl NotANumber
      else if P_Sigma P = 0 \<or> P_Tau P = 0 \<or> P_C P = 0 then Inl Infinite
      else if \<not> refractory_steps \<ge> 0 then Inl AssertionFailed
      else Inr \<lparr>V_P21 = 2 / (sqrt (3 * P_Sigma P) * pi powr (1 / 4) * P_Sigma P),
                V_P22 = - 1 / (P_Sigma P * P_Sigma P),
                V_P33 = exp (- h / P_Tau P),
                V_P31 = P_Tau P / P_C P * (1 - exp (- h / P_Tau P)),
                V_RefractoryCounts = refractory_steps\<rparr>)"

subsection \<open>The kernel and Simpson's rule, as the specification words them\<close>



subsection \<open>\<^verbatim>\<open>STDPConnectionMulti\<close>\<close>

text \<open>
  The members of the connection, and of its base class \<^verbatim>\<open>weight_\<close>, \<^verbatim>\<open>delay_\<close> (in steps)
  and \<^verbatim>\<open>rport_\<close>.
\<close>

record Connection =
  Aplus :: real
  Aneg :: real
  tplus :: real
  tneg :: real
  Wmax :: real
  Esyn :: real
  EmitSpk :: bool
  weight :: real
  delay :: int
  rport :: int

text \<open>
  \<^verbatim>\<open>std::pow(x, y)\<close> on finite operands: 1 for a zero exponent; for a negative base the
  signed power when the exponent is a whole number and NaN otherwise; a zero base to a
  negative exponent is a pole.
\<close>

definition std_pow :: "real \<Rightarrow> real \<Rightarrow> error + real" where
  "std_pow x y =
     (if y = 0 then Inr 1
      else if 0 < x then Inr (x powr y)
      else if x = 0 then (if 0 < y then Inr 0 else Inl Infinite)
      else if of_int \<lfloor>y\<rfloor> = y then Inr (x powi \<lfloor>y\<rfloor>)
      else Inl NotANumber)"

text \<open>\<^verbatim>\<open>std::pow(1.0 - 1.0/tau, e)\<close>; \<^verbatim>\<open>1.0/tau\<close> is infinite for a zero \<^verbatim>\<open>tau\<close>.\<close>

definition decay :: "real \<Rightarrow> real \<Rightarrow> error + real" where
  "decay tau e = (if tau = 0 then Inl Infinite else std_pow (1 - 1 / tau) e)"

text \<open>
  \<^verbatim>\<open>learn_\<close>. When \<^verbatim>\<open>td\<close> is NaN so is \<^verbatim>\<open>nw\<close>, both comparisons are false and the source
  returns NaN: the model returns \<open>Inl NotANumber\<close>. Where the base of the power is
  infinite (a zero time constant) the model does not follow the source and returns
  \<open>Inl Infinite\<close>. Overflow is not modelled either: where the power or a product
  overflows, the source goes on with an infinity and may return NaN. The statements about
  this definition keep to parameters for which that cannot happen; \<open>d_learn\<close> below has
  no such limit.
\<close>

definition learn :: "Connection \<Rightarrow> real \<Rightarrow> real \<Rightarrow> error + real" where
  "learn c w dt =
     (case (if dt > 0
            then (exp (- w) * Aplus c, decay (tplus c) dt)
            else (- w * Aneg c, decay (tneg c) (- dt))) of
        (wd, Inl e) \<Rightarrow> Inl e
      | (wd, Inr td) \<Rightarrow>
          (let nw = w + wd * td
           in if nw < 0 then Inr 0
              else if nw > Wmax c then Inr (Wmax c)
              else Inr nw))"





subsection \<open>The plasticity rule, as the specification words it\<close>

definition clamp :: "real \<Rightarrow> real \<Rightarrow> real \<Rightarrow> real" where
  "clamp x lo hi = (if x < lo then lo else if hi < x then hi else x)"




subsection \<open>Auxiliary notions of the statements\<close>

text \<open>The value a field has after \<^verbatim>\<open>updateValue<double>\<close> returned normally.\<close>

definition assigned :: "dictionary \<Rightarrow> string \<Rightarrow> real \<Rightarrow> real" where
  "assigned d n x = (case d n of Some (DoubleDatum v) \<Rightarrow> v | _ \<Rightarrow> x)"

text \<open>The ten assignments of \<^verbatim>\<open>Parameters_::set\<close>, all done.\<close>

definition assign_all :: "dictionary \<Rightarrow> Parameters \<Rightarrow> Parameters" where
  "assign_all d p =
     p\<lparr>P_U0 := assigned d ''E_L'' (P_U0 p),
       P_V_reset := assigned d ''V_reset'' (P_V_reset p),
       P_Theta := assigned d ''V_th'' (P_Theta p),
       P_LowerBound := assigned d ''V_min'' (P_LowerBound p),
       P_I_e := assigned d ''I_e'' (P_I_e p),
       P_C := assigned d ''C_m'' (P_C p),
       P_Tau := assigned d ''tau_m'' (P_Tau p),
       P_TauR := assigned d ''t_ref'' (P_TauR p),
       P_Sigma := assigned d ''Sigma'' (P_Sigma p),
       P_Ti := assigned d ''Ti'' (P_Ti p)\<rparr>"

text \<open>
  The names that \<^verbatim>\<open>Parameters_::set\<close> reads, and a dictionary in which none of them is
  bound to a token that is not a double.
\<close>

definition double_keys :: "string list" where
  "double_keys = [''E_L'', ''V_reset'', ''V_th'', ''V_min'', ''I_e'', ''C_m'', ''tau_m'',
                  ''t_ref'', ''Sigma'', ''Ti'']"

definition well_typed :: "dictionary \<Rightarrow> bool" where
  "well_typed d =
     list_all (\<lambda>n. case d n of Some (IntegerDatum i) \<Rightarrow> False | _ \<Rightarrow> True) double_keys"

text \<open>A parameter record that passes the four checks of \<^verbatim>\<open>Parameters_::set\<close>.\<close>

definition valid :: "Parameters \<Rightarrow> bool" where
  "valid p = (0 < P_C p \<and> 0 < P_Tau p \<and> 0 < P_Ti p \<and> 0 \<le> P_TauR p)"

subsection \<open>Concrete configurations\<close>

text \<open>
  The parameters of the constructor, but for \<^verbatim>\<open>LowerBound_\<close>, which is finite here, and the
  variables \<^verbatim>\<open>calibrate\<close> derives from them at resolution 0.1 ms with 20 refractory steps.
\<close>

definition P_ex :: Parameters where
  "P_ex = \<lparr>P_Tau = 30, P_C = 1, P_TauR = 2, P_U0 = 0, P_I_e = 0, P_V_reset = - 10,
            P_Theta = - 1, P_LowerBound = - 100, P_Sigma = 30, P_Ti = 50,
            P_num_of_receptors = 2\<rparr>"

definition V_ex :: Variables where
  "V_ex = \<lparr>V_P21 = 2 / (sqrt 90 * pi powr (1 / 4) * 30), V_P22 = - 1 / 900,
            V_P33 = exp (- 1 / 300), V_P31 = 30 * (1 - exp (- 1 / 300)),
            V_RefractoryCounts = 20\<rparr>"

text \<open>
  The state of the constructor, but for \<^verbatim>\<open>ti_\<close>, which is finite here; the same state
  holding an input current; the same state with two refractory steps left.
\<close>

definition S_rest :: State where
  "S_rest = \<lparr>S_y0 = 0, S_y1 = 0, S_y2 = 0, S_y3 = 0, S_currents = 0, S_ti = 0, S_r = 0\<rparr>"


definition S_refractory :: State where
  "S_refractory = S_rest\<lparr>S_r := 2\<rparr>"

text \<open>The resting state with a large integrated trace \<open>y2\<close>.\<close>

definition S_charged :: State where
  "S_charged = S_rest\<lparr>S_y2 := 1000\<rparr>"

definition node_of :: "State \<Rightarrow> Node" where
  "node_of S = \<lparr>N_S = S, N_sent = [], N_spiketimes = [], N_logged = []\<rparr>"

text \<open>Buffers with no event at all, and with one event at receptor 1 in slot 0.\<close>

definition B_quiet :: Buffers where
  "B_quiet = \<lparr>B_spikes0 = (\<lambda>lag. 0), B_spikes1 = (\<lambda>lag. 0), B_currents = (\<lambda>lag. 0)\<rparr>"

definition B_encoding :: Buffers where
  "B_encoding = B_quiet\<lparr>B_spikes1 := (\<lambda>lag. if lag = 0 then 1 else 0)\<rparr>"

text \<open>The connection of the specification's scenario.\<close>

definition c_ex :: Connection where
  "c_ex = \<lparr>Aplus = 1, Aneg = 1, tplus = 20, tneg = 20, Wmax = 1, Esyn = 1, EmitSpk = True,
            weight = 1 / 2, delay = 10, rport = 0\<rparr>"

section \<open>The same code over doubles with NaN and the infinities\<close>

text \<open>
  The definitions above compute with exact reals. Comparisons in the source behave
  differently once a value is NaN or infinite: every comparison with NaN is false, so a
  NaN passes a clamp, and the constructor's \<^verbatim>\<open>ti_\<close> and \<^verbatim>\<open>LowerBound_\<close> are minus infinity.
  For the statements that depend on it the code is embedded a second time, over a type
  of doubles that has these values. Its comparisons are the IEEE ones. Its arithmetic is
  a parameter \<open>F\<close>: the theorems hold for every arithmetic, IEEE double arithmetic with
  its rounding and overflow among them.
\<close>

datatype double = NaN | MInf | Fin real | PInf

fun dless :: "double \<Rightarrow> double \<Rightarrow> bool" where
  "dless (Fin a) (Fin b) = (a < b)"
| "dless MInf (Fin b) = True"
| "dless MInf PInf = True"
| "dless (Fin a) PInf = True"
| "dless a b = False"

fun dle :: "double \<Rightarrow> double \<Rightarrow> bool" where
  "dle (Fin a) (Fin b) = (a \<le> b)"
| "dle MInf (Fin b) = True"
| "dle MInf PInf = True"
| "dle (Fin a) PInf = True"
| "dle MInf MInf = True"
| "dle PInf PInf = True"
| "dle a b = False"

record fpu =
  f_add :: "double \<Rightarrow> double \<Rightarrow> double"
  f_sub :: "double \<Rightarrow> double \<Rightarrow> double"
  f_mul :: "double \<Rightarrow> double \<Rightarrow> double"
  f_div :: "double \<Rightarrow> double \<Rightarrow> double"
  f_neg :: "double \<Rightarrow> double"
  f_abs :: "double \<Rightarrow> double"
  f_exp :: "double \<Rightarrow> double"
  f_pow :: "double \<Rightarrow> double \<Rightarrow> double"

subsection \<open>\<^verbatim>\<open>update\<close> over doubles\<close>

text \<open>The fields that the loop of \<^verbatim>\<open>update\<close> reads and writes.\<close>

record dParameters =
  dP_U0 :: double
  dP_V_reset :: double
  dP_Theta :: double
  dP_LowerBound :: double
  dP_Ti :: double

record dVariables =
  dV_P21 :: double
  dV_P22 :: double
  dV_P33 :: double
  dV_P31 :: double
  dV_RefractoryCounts :: int

record dState =
  dS_y0 :: double
  dS_y1 :: double
  dS_y2 :: double
  dS_y3 :: double
  dS_currents :: double
  dS_ti :: double
  dS_r :: int

text \<open>
  What one lag reads: the time \<open>t\<close> of the step and the values of the three ring buffers.
\<close>

record Slot =
  slot_t :: double
  slot_spikes0 :: double
  slot_spikes1 :: double
  slot_current :: double

definition d_update_currents ::
  "fpu \<Rightarrow> dParameters \<Rightarrow> dVariables \<Rightarrow> double \<Rightarrow> dState \<Rightarrow> dState" where
  "d_update_currents F P V t S =
     (let tt_s = f_sub F (f_sub F t (dS_ti S)) (f_div F (dP_Ti P) (Fin 2));
          tt_s = f_mul F (f_mul F (dV_P22 V) tt_s) tt_s
      in S\<lparr>dS_currents :=
             f_mul F (f_mul F (f_mul F (dS_y0 S) (dV_P21 V)) (f_add F (Fin 1) tt_s))
               (f_exp F (f_div F tt_s (Fin 2)))\<rparr>)"

definition d_drain_spikes :: "dParameters \<Rightarrow> Slot \<Rightarrow> dState \<Rightarrow> dState" where
  "d_drain_spikes P x S =
     (let S = (if dless (Fin (1 / 10)) (slot_spikes0 x)
               then S\<lparr>dS_y1 := Fin 0, dS_y2 := Fin 0, dS_currents := Fin 0,
                      dS_ti := slot_t x\<rparr>
               else S);
          S = (if dless (Fin (1 / 10)) (slot_spikes1 x)
               then S\<lparr>dS_y3 := dP_V_reset P, dS_y1 := Fin 1\<rparr> else S)
      in S)"

definition d_dynamics ::
  "fpu \<Rightarrow> dParameters \<Rightarrow> dVariables \<Rightarrow> double \<Rightarrow> double \<Rightarrow> dState \<Rightarrow> dState" where
  "d_dynamics F P V h t S =
     (let S = S\<lparr>dS_y3 := f_add F (f_mul F (dV_P33 V) (dS_y3 S))
                             (f_mul F (f_mul F (dV_P31 V) (dS_y1 S)) (f_abs F (dS_y2 S)))\<rparr>;
          S = S\<lparr>dS_y1 := f_mul F (dV_P33 V) (dS_y1 S)\<rparr>;
          dk = dS_currents S;
          S = d_update_currents F P V (f_add F t (f_div F h (Fin 2))) S;
          dk = f_add F dk (f_mul F (Fin 4) (dS_currents S));
          S = d_update_currents F P V (f_add F t h) S;
          dk = f_add F dk (dS_currents S)
      in S\<lparr>dS_y2 := f_add F (dS_y2 S) (f_div F (f_mul F dk h) (Fin 6))\<rparr>)"

definition d_lower_bound :: "dParameters \<Rightarrow> dState \<Rightarrow> dState" where
  "d_lower_bound P S =
     (let S = S\<lparr>dS_y3 := (if dless (dS_y3 S) (dP_LowerBound P) then dP_LowerBound P
                           else dS_y3 S)\<rparr>;
          S = S\<lparr>dS_y2 := (if dless (dS_y2 S) (dP_LowerBound P) then dP_LowerBound P
                           else dS_y2 S)\<rparr>;
          S = S\<lparr>dS_y1 := (if dless (dS_y1 S) (dP_LowerBound P) then dP_LowerBound P
                           else dS_y1 S)\<rparr>
      in S)"

definition d_advance ::
  "fpu \<Rightarrow> dParameters \<Rightarrow> dVariables \<Rightarrow> double \<Rightarrow> double \<Rightarrow> dState \<Rightarrow> dState" where
  "d_advance F P V h t S =
     (if dS_r S = 0 then d_lower_bound P (d_dynamics F P V h t S)
      else S\<lparr>dS_r := dS_r S - 1\<rparr>)"

definition d_crossing :: "dParameters \<Rightarrow> double \<Rightarrow> dState \<Rightarrow> bool" where
  "d_crossing P Vm0 S = (dless Vm0 (dP_Theta P) \<and> dle (dP_Theta P) (dS_y3 S))"

definition d_reset :: "dParameters \<Rightarrow> dVariables \<Rightarrow> dState \<Rightarrow> dState" where
  "d_reset P V S =
     S\<lparr>dS_r := dV_RefractoryCounts V, dS_y3 := dP_U0 P, dS_y2 := Fin 0, dS_y1 := Fin 0\<rparr>"

text \<open>What one lag of the loop does to \<^verbatim>\<open>S_\<close>, lines 270 to 331.\<close>

definition d_update_step ::
  "fpu \<Rightarrow> dParameters \<Rightarrow> dVariables \<Rightarrow> double \<Rightarrow> Slot \<Rightarrow> dState \<Rightarrow> dState" where
  "d_update_step F P V h x S =
     (let S = d_drain_spikes P x S;
          Vm0 = dS_y3 S;
          S = d_advance F P V h (slot_t x) S;
          S = (if d_crossing P Vm0 S then d_reset P V S else S)
      in S\<lparr>dS_y0 := slot_current x\<rparr>)"




subsection \<open>\<^verbatim>\<open>learn_\<close> and the loop of \<^verbatim>\<open>send\<close> over doubles\<close>

record dConnection =
  dAplus :: double
  dAneg :: double
  dtplus :: double
  dtneg :: double
  dWmax :: double

definition d_learn :: "fpu \<Rightarrow> dConnection \<Rightarrow> double \<Rightarrow> double \<Rightarrow> double" where
  "d_learn F c w dt =
     (let (wd, td) =
            (if dless (Fin 0) dt
             then (f_mul F (f_exp F (f_neg F w)) (dAplus c),
                   f_pow F (f_sub F (Fin 1) (f_div F (Fin 1) (dtplus c))) dt)
             else (f_mul F (f_neg F w) (dAneg c),
                   f_pow F (f_sub F (Fin 1) (f_div F (Fin 1) (dtneg c))) (f_neg F dt)));
          nw = f_add F w (f_mul F wd td)
      in if dless nw (Fin 0) then Fin 0
         else if dless (dWmax c) nw then dWmax c
         else nw)"

fun d_facilitate ::
  "fpu \<Rightarrow> dConnection \<Rightarrow> double \<Rightarrow> double \<Rightarrow> double list \<Rightarrow> double \<Rightarrow> double" where
  "d_facilitate F c t_lastspike dendritic_delay [] w = w"
| "d_facilitate F c t_lastspike dendritic_delay (t # ts) w =
     (let minus_dt = f_sub F t_lastspike (f_add F t dendritic_delay)
      in d_facilitate F c t_lastspike dendritic_delay ts (d_learn F c w minus_dt))"

text \<open>A weight is in the range from 0 to \<open>Wmax\<close>, or it is NaN.\<close>

definition d_in_range :: "dConnection \<Rightarrow> double \<Rightarrow> bool" where
  "d_in_range c w = (w = NaN \<or> (dle (Fin 0) w \<and> dle w (dWmax c)))"

subsection \<open>Concrete configurations over doubles\<close>

text \<open>
  One arithmetic to run examples with: exact on finite operands (with the conventions of
  HOL's division and power), NaN as soon as an operand is not finite.
\<close>

definition lift1 :: "(real \<Rightarrow> real) \<Rightarrow> double \<Rightarrow> double" where
  "lift1 g a = (case a of Fin x \<Rightarrow> Fin (g x) | _ \<Rightarrow> NaN)"

definition lift2 :: "(real \<Rightarrow> real \<Rightarrow> real) \<Rightarrow> double \<Rightarrow> double \<Rightarrow> double" where
  "lift2 g a b = (case (a, b) of (Fin x, Fin y) \<Rightarrow> Fin (g x y) | _ \<Rightarrow> NaN)"

definition F_ex :: fpu where
  "F_ex = \<lparr>f_add = lift2 (+), f_sub = lift2 (-), f_mul = lift2 (*), f_div = lift2 (/),
            f_neg = lift1 uminus, f_abs = lift1 abs, f_exp = lift1 exp,
            f_pow = lift2 (powr)\<rparr>"

text \<open>The parameters and the state of the constructor, and the variables of \<open>V_ex\<close>.\<close>

definition dP_ex :: dParameters where
  "dP_ex = \<lparr>dP_U0 = Fin 0, dP_V_reset = Fin (- 10), dP_Theta = Fin (- 1),
             dP_LowerBound = MInf, dP_Ti = Fin 50\<rparr>"

definition dV_ex :: dVariables where
  "dV_ex = \<lparr>dV_P21 = Fin (V_P21 V_ex), dV_P22 = Fin (V_P22 V_ex), dV_P33 = Fin (V_P33 V_ex),
             dV_P31 = Fin (V_P31 V_ex), dV_RefractoryCounts = 20\<rparr>"

definition dS_ex :: dState where
  "dS_ex = \<lparr>dS_y0 = Fin 0, dS_y1 = Fin 0, dS_y2 = Fin 0, dS_y3 = Fin 0,
             dS_currents = Fin 0, dS_ti = MInf, dS_r = 0\<rparr>"

definition quiet_slot :: "real \<Rightarrow> Slot" where
  "quiet_slot t = \<lparr>slot_t = Fin t, slot_spikes0 = Fin 0, slot_spikes1 = Fin 0,
                    slot_current = Fin 0\<rparr>"

definition dc_ex :: dConnection where
  "dc_ex = \<lparr>dAplus = Fin 1, dAneg = Fin 1, dtplus = Fin 20, dtneg = Fin 20, dWmax = Fin 1\<rparr>"

section \<open>The update engine\<close>

subsection \<open>One step, field by field\<close>

lemma V_ex_calibrated: "calibrate P_ex (1 / 10) 20 = Inr V_ex"
  by (simp add: calibrate_def P_ex_def V_ex_def)

lemma update_runs_loop:
  assumes "0 \<le> to" "from < min_delay" "from < to"
  shows "update P V h min_delay B origin from to N =
           Inr (update_loop P V h B origin [from..to - 1] N)"
  using assms by (simp add: update_def)

lemma update_step_S:
  "N_S (update_step P V h B origin lag N) =
     (let t = get_ms h (origin + lag + 1);
          S1 = drain_spikes P t (B_spikes0 B lag) (B_spikes1 B lag) (N_S N);
          S2 = advance P V h t S1
      in (if crossing P (S_y3 S1) S2 then reset P V S2 else S2)\<lparr>S_y0 := B_currents B lag\<rparr>)"
  by (simp add: update_step_def Let_def)




subsection \<open>The threshold\<close>

text \<open>
  C4. In every step, with \<open>Vm0\<close> the potential after the receptors were drained and
  \<open>S2\<close> the state after the continuous update (or the refractory countdown): if
  \<open>Vm0 < Theta\<close> and the updated \<open>y3\<close> is at least \<open>Theta\<close>, the step leaves \<open>y3 = U0\<close>,
  \<open>y2 = 0\<close>, \<open>y1 = 0\<close>, \<open>r = RefractoryCounts\<close>, and hands exactly one spike event, for this
  lag, to the network (and one spike time to the archive); otherwise the step leaves the
  state as the update produced it, but for the new input current \<open>y0\<close>, and sends nothing.
\<close>

theorem threshold_crossing_step:
  "(let t = get_ms h (origin + lag + 1);
        S1 = drain_spikes P t (B_spikes0 B lag) (B_spikes1 B lag) (N_S N);
        S2 = advance P V h t S1;
        N' = update_step P V h B origin lag N
    in if S_y3 S1 < P_Theta P \<and> S_y3 S2 \<ge> P_Theta P
       then S_y3 (N_S N') = P_U0 P \<and> S_y2 (N_S N') = 0 \<and> S_y1 (N_S N') = 0
          \<and> S_r (N_S N') = V_RefractoryCounts V
          \<and> N_sent N' = N_sent N @ [lag]
          \<and> N_spiketimes N' = N_spiketimes N @ [origin + lag + 1]
       else N_S N' = S2\<lparr>S_y0 := B_currents B lag\<rparr>
          \<and> N_sent N' = N_sent N
          \<and> N_spiketimes N' = N_spiketimes N)"
proof -
  let ?t = "get_ms h (origin + lag + 1)"
  let ?S1 = "drain_spikes P ?t (B_spikes0 B lag) (B_spikes1 B lag) (N_S N)"
  let ?S2 = "advance P V h ?t ?S1"
  let ?N' = "update_step P V h B origin lag N"
  show ?thesis
  proof (cases "S_y3 ?S1 < P_Theta P \<and> S_y3 ?S2 \<ge> P_Theta P")
    case True
    then have fired: "crossing P (S_y3 ?S1) ?S2" by (simp add: crossing_def)
    have "N_S ?N' = (reset P V ?S2)\<lparr>S_y0 := B_currents B lag\<rparr>"
      using fired by (simp add: update_step_S Let_def)
    moreover have "N_sent ?N' = N_sent N @ [lag]"
      "N_spiketimes ?N' = N_spiketimes N @ [origin + lag + 1]"
      using fired by (simp_all add: update_step_def Let_def)
    ultimately show ?thesis using True by (simp add: Let_def reset_def)
  next
    case False
    then have quiet: "\<not> crossing P (S_y3 ?S1) ?S2" by (simp add: crossing_def)
    have "N_S ?N' = ?S2\<lparr>S_y0 := B_currents B lag\<rparr>"
      using quiet by (simp add: update_step_S Let_def)
    moreover have "N_sent ?N' = N_sent N" "N_spiketimes ?N' = N_spiketimes N"
      using quiet by (simp_all add: update_step_def Let_def)
    ultimately show ?thesis using False by (simp add: Let_def)
  qed
qed

text \<open>
  A step that fires: a receptor-1 event sets \<open>y3 = -10\<close> and \<open>y1 = 1\<close>, the drive of
  \<open>y2 = 1000\<close> carries the potential over the threshold \<open>-1\<close>, and the step ends reset,
  refractory for 20 steps, with one spike sent for lag 0.
\<close>

lemma exp_bound: "exp (- 1 / 300 :: real) \<le> 300 / 301"
proof -
  have "1 + 1 / 300 \<le> exp (1 / 300 :: real)" by (rule exp_ge_add_one_self)
  then have "301 / 300 \<le> exp (1 / 300 :: real)" by simp
  then have "inverse (exp (1 / 300 :: real)) \<le> inverse (301 / 300)"
    by (intro le_imp_inverse_le) simp_all
  then show ?thesis by (simp add: exp_minus)
qed

lemma charged_step_crosses:
  "S_y3 (drain_spikes P_ex (get_ms (1 / 10) 1) (B_spikes0 B_encoding 0)
           (B_spikes1 B_encoding 0) (N_S (node_of S_charged))) < P_Theta P_ex"
  "S_y3 (advance P_ex V_ex (1 / 10) (get_ms (1 / 10) 1)
           (drain_spikes P_ex (get_ms (1 / 10) 1) (B_spikes0 B_encoding 0)
              (B_spikes1 B_encoding 0) (N_S (node_of S_charged)))) \<ge> P_Theta P_ex"
proof -
  let ?S1 = "drain_spikes P_ex (get_ms (1 / 10) 1) (B_spikes0 B_encoding 0)
               (B_spikes1 B_encoding 0) (N_S (node_of S_charged))"
  have S1: "S_y3 ?S1 = - 10" "S_y1 ?S1 = 1" "S_y2 ?S1 = 1000" "S_r ?S1 = 0"
    by (simp_all add: drain_spikes_def B_encoding_def B_quiet_def node_of_def S_charged_def
        S_rest_def P_ex_def)
  show "S_y3 ?S1 < P_Theta P_ex" unfolding S1 by (simp add: P_ex_def)
  have "V_P33 V_ex * S_y3 ?S1 + V_P31 V_ex * S_y1 ?S1 * \<bar>S_y2 ?S1\<bar> \<ge> - 1"
    unfolding S1 using exp_bound by (simp add: V_ex_def)
  then show "S_y3 (advance P_ex V_ex (1 / 10) (get_ms (1 / 10) 1) ?S1) \<ge> P_Theta P_ex"
    using S1(4)
    by (simp add: advance_def dynamics_def lower_bound_def update_currents_def Let_def
        P_ex_def)
qed

theorem threshold_crossing_step_witness:
  "S_y3 (N_S (update_step P_ex V_ex (1 / 10) B_encoding 0 0 (node_of S_charged))) = 0
   \<and> S_y2 (N_S (update_step P_ex V_ex (1 / 10) B_encoding 0 0 (node_of S_charged))) = 0
   \<and> S_y1 (N_S (update_step P_ex V_ex (1 / 10) B_encoding 0 0 (node_of S_charged))) = 0
   \<and> S_r (N_S (update_step P_ex V_ex (1 / 10) B_encoding 0 0 (node_of S_charged))) = 20
   \<and> N_sent (update_step P_ex V_ex (1 / 10) B_encoding 0 0 (node_of S_charged)) = [0]
   \<and> N_spiketimes (update_step P_ex V_ex (1 / 10) B_encoding 0 0 (node_of S_charged)) = [1]"
proof -
  let ?N = "update_step P_ex V_ex (1 / 10) B_encoding 0 0 (node_of S_charged)"
  let ?S1 = "drain_spikes P_ex (get_ms (1 / 10) 1) (B_spikes0 B_encoding 0)
               (B_spikes1 B_encoding 0) (N_S (node_of S_charged))"
  let ?S2 = "advance P_ex V_ex (1 / 10) (get_ms (1 / 10) 1) ?S1"
  have step:
    "if S_y3 ?S1 < P_Theta P_ex \<and> S_y3 ?S2 \<ge> P_Theta P_ex
     then S_y3 (N_S ?N) = P_U0 P_ex \<and> S_y2 (N_S ?N) = 0 \<and> S_y1 (N_S ?N) = 0
        \<and> S_r (N_S ?N) = V_RefractoryCounts V_ex
        \<and> N_sent ?N = N_sent (node_of S_charged) @ [0]
        \<and> N_spiketimes ?N = N_spiketimes (node_of S_charged) @ [0 + 0 + 1]
     else N_S ?N = ?S2\<lparr>S_y0 := B_currents B_encoding 0\<rparr>
        \<and> N_sent ?N = N_sent (node_of S_charged)
        \<and> N_spiketimes ?N = N_spiketimes (node_of S_charged)"
    using threshold_crossing_step [of "1 / 10" 0 0 P_ex B_encoding "node_of S_charged" V_ex]
    by (simp add: Let_def)
  have "S_y3 (N_S ?N) = P_U0 P_ex \<and> S_y2 (N_S ?N) = 0 \<and> S_y1 (N_S ?N) = 0
        \<and> S_r (N_S ?N) = V_RefractoryCounts V_ex
        \<and> N_sent ?N = N_sent (node_of S_charged) @ [0]
        \<and> N_spiketimes ?N = N_spiketimes (node_of S_charged) @ [0 + 0 + 1]"
    using step charged_step_crosses by (simp only: simp_thms if_True)
  then show ?thesis by (simp add: P_ex_def V_ex_def node_of_def)
qed

subsection \<open>The potential and the threshold at a step boundary\<close>

text \<open>
  C1. The property that \<open>y3\<close> is never above \<open>Theta\<close> at the end of a step, which the
  comment at the reset states as well, does not hold of the code. With the parameters of
  the constructor (\<open>Theta = -1\<close>, \<open>U0 = 0\<close>) and its potential \<open>y3 = 0\<close>, a step without
  any input ends with \<open>y3 = 0\<close>, above the threshold: the potential was not below the
  threshold before the update, so the test sees no crossing. In a step that fires, the
  potential was below the threshold, the crossing is seen and reset in the same step, and
  the step ends with \<open>y3 = U0 = 0\<close>, above the threshold again.
\<close>

theorem supra_threshold_observable:
  "S_y3 (N_S (update_step P_ex V_ex (1 / 10) B_quiet 0 0 (node_of S_rest))) = 0
   \<and> S_y3 (N_S (update_step P_ex V_ex (1 / 10) B_encoding 0 0 (node_of S_charged))) = 0
   \<and> P_Theta P_ex = - 1"
proof -
  have quiet: "S_y3 (N_S (update_step P_ex V_ex (1 / 10) B_quiet 0 0 (node_of S_rest))) = 0"
    by (simp add: update_step_S drain_spikes_def advance_def dynamics_def lower_bound_def
        crossing_def update_currents_def Let_def P_ex_def V_ex_def S_rest_def B_quiet_def
        node_of_def)
  have "crossing P_ex
          (S_y3 (drain_spikes P_ex (get_ms (1 / 10) 1) (B_spikes0 B_encoding 0)
                   (B_spikes1 B_encoding 0) (N_S (node_of S_charged))))
          (advance P_ex V_ex (1 / 10) (get_ms (1 / 10) 1)
             (drain_spikes P_ex (get_ms (1 / 10) 1) (B_spikes0 B_encoding 0)
                (B_spikes1 B_encoding 0) (N_S (node_of S_charged))))"
    using charged_step_crosses by (simp add: crossing_def)
  then have fired:
    "S_y3 (N_S (update_step P_ex V_ex (1 / 10) B_encoding 0 0 (node_of S_charged))) = P_U0 P_ex"
    by (simp add: update_step_S Let_def reset_def)
  show ?thesis using quiet fired by (simp add: P_ex_def)
qed

subsection \<open>The lower bound\<close>











lemma constructor_state_NaN:
  "dS_y2 (d_update_step F_ex dP_ex dV_ex (Fin (1 / 10)) (quiet_slot (1 / 10)) dS_ex) = NaN"
  by (simp add: d_update_step_def d_drain_spikes_def d_advance_def d_dynamics_def
      d_lower_bound_def d_update_currents_def d_crossing_def Let_def dP_ex_def dV_ex_def
      dS_ex_def quiet_slot_def F_ex_def lift1_def lift2_def)


subsection \<open>The integration of \<open>y2\<close>\<close>



subsection \<open>Refractory steps\<close>

lemma refractory_step:
  assumes "S_r (N_S N) > 0" "B_spikes0 B lag \<le> 1 / 10" "B_spikes1 B lag \<le> 1 / 10"
  shows "update_step P V h B origin lag N =
           N\<lparr>N_S := (N_S N)\<lparr>S_r := S_r (N_S N) - 1, S_y0 := B_currents B lag\<rparr>,
             N_logged := N_logged N @
               [(origin + lag, (N_S N)\<lparr>S_r := S_r (N_S N) - 1, S_y0 := B_currents B lag\<rparr>)]\<rparr>"
  using assms by (simp add: update_step_def drain_spikes_def advance_def crossing_def Let_def)

lemma refractory_run:
  assumes "\<forall>lag \<in> set lags. B_spikes0 B lag \<le> 1 / 10 \<and> B_spikes1 B lag \<le> 1 / 10"
    "int (length lags) \<le> S_r (N_S N)"
  shows "N_S (update_loop P V h B origin lags N) =
           (N_S N)\<lparr>S_r := S_r (N_S N) - int (length lags),
                   S_y0 := (if lags = [] then S_y0 (N_S N) else B_currents B (last lags))\<rparr>
         \<and> N_sent (update_loop P V h B origin lags N) = N_sent N
         \<and> N_spiketimes (update_loop P V h B origin lags N) = N_spiketimes N"
  using assms
proof (induction lags arbitrary: N)
  case Nil
  then show ?case by simp
next
  case (Cons lag lags)
  let ?N1 = "update_step P V h B origin lag N"
  have r: "S_r (N_S N) > 0" using Cons.prems(2) by simp
  have s: "B_spikes0 B lag \<le> 1 / 10" "B_spikes1 B lag \<le> 1 / 10"
    using Cons.prems(1) by simp_all
  note st = refractory_step [OF r s, of P V h origin]
  have "int (length lags) \<le> S_r (N_S ?N1)" using Cons.prems(2) by (simp add: st)
  moreover have "\<forall>lag \<in> set lags. B_spikes0 B lag \<le> 1 / 10 \<and> B_spikes1 B lag \<le> 1 / 10"
    using Cons.prems(1) by simp
  ultimately have IH:
    "N_S (update_loop P V h B origin lags ?N1) =
       (N_S ?N1)\<lparr>S_r := S_r (N_S ?N1) - int (length lags),
                  S_y0 := (if lags = [] then S_y0 (N_S ?N1) else B_currents B (last lags))\<rparr>
     \<and> N_sent (update_loop P V h B origin lags ?N1) = N_sent ?N1
     \<and> N_spiketimes (update_loop P V h B origin lags ?N1) = N_spiketimes ?N1"
    using Cons.IH by blast
  show ?case by (simp add: IH) (simp add: st)
qed

text \<open>
  C8. A step that starts with \<open>r > 0\<close> and drains no event at receptor 0 or 1 changes
  nothing of the node but \<open>r\<close>, which it decrements by one, \<open>y0\<close>, which it reads from the
  current buffer, and the log, to which it appends the record of this step: \<open>y1\<close>, \<open>y2\<close>,
  \<open>y3\<close>, \<open>currents\<close> and \<open>ti\<close> are as before and no spike is sent. Over any run of such
  steps that is no longer than \<open>r\<close>, \<open>r\<close> falls by one per step, by the length of the run
  in all (to 0 when the run has length \<open>r\<close>).
\<close>

theorem refractory_steps:
  assumes "\<forall>lag \<in> set (lag # lags). B_spikes0 B lag \<le> 1 / 10 \<and> B_spikes1 B lag \<le> 1 / 10"
    "int (length (lag # lags)) \<le> S_r (N_S N)"
  shows "update_step P V h B origin lag N =
           N\<lparr>N_S := (N_S N)\<lparr>S_r := S_r (N_S N) - 1, S_y0 := B_currents B lag\<rparr>,
             N_logged := N_logged N @
               [(origin + lag, (N_S N)\<lparr>S_r := S_r (N_S N) - 1, S_y0 := B_currents B lag\<rparr>)]\<rparr>
         \<and> N_S (update_loop P V h B origin (lag # lags) N) =
             (N_S N)\<lparr>S_r := S_r (N_S N) - int (length (lag # lags)),
                     S_y0 := B_currents B (last (lag # lags))\<rparr>
         \<and> N_sent (update_loop P V h B origin (lag # lags) N) = N_sent N
         \<and> N_spiketimes (update_loop P V h B origin (lag # lags) N) = N_spiketimes N"
proof -
  have r: "S_r (N_S N) > 0" using assms(2) by simp
  have s: "B_spikes0 B lag \<le> 1 / 10" "B_spikes1 B lag \<le> 1 / 10" using assms(1) by simp_all
  show ?thesis
    using refractory_step [OF r s, of P V h origin] refractory_run [OF assms, of P V h origin]
    by simp
qed

theorem refractory_steps_witness:
  "B_spikes0 B_quiet 0 \<le> 1 / 10 \<and> B_spikes1 B_quiet 0 \<le> 1 / 10
   \<and> B_spikes0 B_quiet 1 \<le> 1 / 10 \<and> B_spikes1 B_quiet 1 \<le> 1 / 10
   \<and> int (length [0, 1 :: int]) \<le> S_r (N_S (node_of S_refractory))
   \<and> N_S (update_loop P_ex V_ex (1 / 10) B_quiet 0 [0, 1] (node_of S_refractory)) = S_rest
   \<and> N_sent (update_loop P_ex V_ex (1 / 10) B_quiet 0 [0, 1] (node_of S_refractory)) = []"
proof -
  have h1: "\<forall>lag \<in> set [0, 1]. B_spikes0 B_quiet lag \<le> 1 / 10 \<and> B_spikes1 B_quiet lag \<le> 1 / 10"
    by (simp add: B_quiet_def)
  have h2: "int (length [0, 1 :: int]) \<le> S_r (N_S (node_of S_refractory))"
    by (simp add: node_of_def S_refractory_def)
  note run = refractory_steps [OF h1 h2, of P_ex V_ex "1 / 10" 0, THEN conjunct2]
  have "(N_S (node_of S_refractory))
          \<lparr>S_r := S_r (N_S (node_of S_refractory)) - int (length [0, 1 :: int]),
           S_y0 := B_currents B_quiet (last [0, 1])\<rparr> = S_rest"
    by (simp add: node_of_def S_refractory_def S_rest_def B_quiet_def)
  then have a: "N_S (update_loop P_ex V_ex (1 / 10) B_quiet 0 [0, 1] (node_of S_refractory))
                  = S_rest"
    using run [THEN conjunct1] by (rule subst)
  have b: "N_sent (update_loop P_ex V_ex (1 / 10) B_quiet 0 [0, 1] (node_of S_refractory)) = []"
    using run [THEN conjunct2, THEN conjunct1] by (simp only: node_of_def Node.simps)
  have h0: "B_spikes0 B_quiet 0 \<le> 1 / 10 \<and> B_spikes1 B_quiet 0 \<le> 1 / 10
            \<and> B_spikes0 B_quiet 1 \<le> 1 / 10 \<and> B_spikes1 B_quiet 1 \<le> 1 / 10"
    by (simp add: B_quiet_def)
  show ?thesis using h0 h2 a b by blast
qed

section \<open>The parameters\<close>

lemma validate_BadProperty:
  "(\<exists>m. validate p x = Inl (BadProperty m)) =
     (P_C p \<le> 0 \<or> P_Tau p \<le> 0 \<or> P_Ti p \<le> 0 \<or> P_TauR p < 0)"
  by (simp add: validate_def)

lemma updateValue_well_typed:
  assumes "well_typed d" "n \<in> set double_keys"
  shows "updateValue d n x = Inr (assigned d n x)"
proof -
  have "case d n of Some (IntegerDatum i) \<Rightarrow> False | _ \<Rightarrow> True"
    using assms by (simp add: well_typed_def list_all_iff)
  then show ?thesis
    by (simp add: updateValue_def assigned_def split: option.splits datum.splits)
qed

lemma Parameters_set_well_typed:
  assumes "well_typed d"
  shows "Parameters_set d p =
           (assign_all d p, validate (assign_all d p) (P_U0 (assign_all d p) - P_U0 p))"
proof -
  have u: "\<And>n x. n \<in> set double_keys \<Longrightarrow> updateValue d n x = Inr (assigned d n x)"
    using assms by (rule updateValue_well_typed)
  have k: "updateValue d ''E_L'' = (\<lambda>x. Inr (assigned d ''E_L'' x))"
    "updateValue d ''V_reset'' = (\<lambda>x. Inr (assigned d ''V_reset'' x))"
    "updateValue d ''V_th'' = (\<lambda>x. Inr (assigned d ''V_th'' x))"
    "updateValue d ''V_min'' = (\<lambda>x. Inr (assigned d ''V_min'' x))"
    "updateValue d ''I_e'' = (\<lambda>x. Inr (assigned d ''I_e'' x))"
    "updateValue d ''C_m'' = (\<lambda>x. Inr (assigned d ''C_m'' x))"
    "updateValue d ''tau_m'' = (\<lambda>x. Inr (assigned d ''tau_m'' x))"
    "updateValue d ''t_ref'' = (\<lambda>x. Inr (assigned d ''t_ref'' x))"
    "updateValue d ''Sigma'' = (\<lambda>x. Inr (assigned d ''Sigma'' x))"
    "updateValue d ''Ti'' = (\<lambda>x. Inr (assigned d ''Ti'' x))"
    by (rule ext, rule u, simp add: double_keys_def)+
  show ?thesis
    unfolding Parameters_set_def k by (simp add: Let_def assign_all_def)
qed

text \<open>
  C3, as amended. For a dictionary in which none of the ten names is bound to a token
  that is not a double, \<^verbatim>\<open>Parameters_::set\<close> assigns all ten fields from the dictionary (a
  field keeps its value where the dictionary has no entry for it) and then raises the
  validation error exactly when the resulting \<open>C \<le> 0\<close>, \<open>Tau \<le> 0\<close>, \<open>Ti \<le> 0\<close> or
  \<open>TauR < 0\<close>. Whether it raises or not, the object it was called on holds the assigned
  values afterwards: the failed call restores nothing.
\<close>

theorem Parameters_set_outcome:
  assumes "well_typed d"
  shows "Parameters_set d p =
           (assign_all d p, validate (assign_all d p) (P_U0 (assign_all d p) - P_U0 p))
       \<and> fst (Parameters_set d p) = assign_all d p
       \<and> ((\<exists>m. snd (Parameters_set d p) = Inl (BadProperty m)) =
            (P_C (assign_all d p) \<le> 0 \<or> P_Tau (assign_all d p) \<le> 0
              \<or> P_Ti (assign_all d p) \<le> 0 \<or> P_TauR (assign_all d p) < 0))"
proof -
  note eq = Parameters_set_well_typed [OF assms, of p]
  show ?thesis
    unfolding eq
    using validate_BadProperty [of "assign_all d p" "P_U0 (assign_all d p) - P_U0 p"]
    by simp
qed

text \<open>
  Two dictionaries for the four fields of \<open>P_ex\<close> that the checks read: one that lowers
  the membrane time constant to an admissible value, which is stored and nothing raised,
  and one with a refractory time below 0, which is stored and the error raised.
\<close>

theorem Parameters_set_outcome_witness:
  "well_typed [''tau_m'' \<mapsto> DoubleDatum 10]
   \<and> Parameters_set [''tau_m'' \<mapsto> DoubleDatum 10] P_ex = (P_ex\<lparr>P_Tau := 10\<rparr>, Inr 0)
   \<and> well_typed [''t_ref'' \<mapsto> DoubleDatum (- 2)]
   \<and> Parameters_set [''t_ref'' \<mapsto> DoubleDatum (- 2)] P_ex =
       (P_ex\<lparr>P_TauR := - 2\<rparr>,
        Inl (BadProperty ''The refractory time t_ref can't be negative.''))"
proof -
  have h1: "well_typed [''tau_m'' \<mapsto> DoubleDatum 10]"
    by (simp add: well_typed_def double_keys_def)
  have h2: "well_typed [''t_ref'' \<mapsto> DoubleDatum (- 2)]"
    by (simp add: well_typed_def double_keys_def)
  have a: "Parameters_set [''tau_m'' \<mapsto> DoubleDatum 10] P_ex = (P_ex\<lparr>P_Tau := 10\<rparr>, Inr 0)"
    using Parameters_set_outcome [OF h1, of P_ex, THEN conjunct1]
    by (simp add: assign_all_def assigned_def validate_def P_ex_def)
  have b: "Parameters_set [''t_ref'' \<mapsto> DoubleDatum (- 2)] P_ex =
       (P_ex\<lparr>P_TauR := - 2\<rparr>,
        Inl (BadProperty ''The refractory time t_ref can't be negative.''))"
    using Parameters_set_outcome [OF h2, of P_ex, THEN conjunct1]
    by (simp add: assign_all_def assigned_def validate_def P_ex_def)
  show ?thesis using h1 h2 a b by blast
qed

text \<open>
  The claim as stated fails: a dictionary with \<open>C_m = -1\<close> makes the call raise the
  validation error, and the capacitance of the object is \<open>-1\<close> afterwards, not the \<open>1\<close>
  it held before.
\<close>

theorem Parameters_set_counterexample:
  "snd (Parameters_set [''C_m'' \<mapsto> DoubleDatum (- 1)] P_ex)
     = Inl (BadProperty ''Capacitance must be > 0.'')
   \<and> P_C (fst (Parameters_set [''C_m'' \<mapsto> DoubleDatum (- 1)] P_ex)) = - 1
   \<and> P_C P_ex = 1"
  by (simp add: Parameters_set_def updateValue_def validate_def P_ex_def)

lemma updateValue_get:
  "updateValue (Parameters_get d p) ''E_L'' x = Inr (P_U0 p)"
  "updateValue (Parameters_get d p) ''V_reset'' x = Inr (P_V_reset p + P_U0 p)"
  "updateValue (Parameters_get d p) ''V_th'' x = Inr (P_Theta p + P_U0 p)"
  "updateValue (Parameters_get d p) ''V_min'' x = Inr (P_LowerBound p + P_U0 p)"
  "updateValue (Parameters_get d p) ''I_e'' x = Inr (P_I_e p)"
  "updateValue (Parameters_get d p) ''C_m'' x = Inr (P_C p)"
  "updateValue (Parameters_get d p) ''tau_m'' x = Inr (P_Tau p)"
  "updateValue (Parameters_get d p) ''t_ref'' x = Inr (P_TauR p)"
  "updateValue (Parameters_get d p) ''Sigma'' x = Inr (P_Sigma p)"
  "updateValue (Parameters_get d p) ''Ti'' x = Inr (P_Ti p)"
  by (simp_all add: updateValue_def Parameters_get_def def_double_def def_int_def)

lemma set_get_fields:
  "fst (Parameters_set (Parameters_get d p) q) =
     p\<lparr>P_V_reset := P_V_reset p + P_U0 p, P_Theta := P_Theta p + P_U0 p,
       P_LowerBound := P_LowerBound p + P_U0 p,
       P_num_of_receptors := P_num_of_receptors q\<rparr>"
  by (cases p, cases q) (simp add: Parameters_set_def updateValue_get Let_def)

text \<open>
  C10. \<^verbatim>\<open>Parameters_::get\<close> reports \<open>V_th\<close>, \<open>V_reset\<close> and \<open>V_min\<close> as the fields plus
  \<open>U0\<close>, and \<^verbatim>\<open>Parameters_::set\<close> stores what the dictionary holds under these names into
  the fields as it is: setting any record \<open>q\<close> from the dictionary written from \<open>p\<close> gives
  the fields of \<open>p\<close> with \<open>Theta\<close>, \<open>V_reset\<close> and \<open>LowerBound\<close> raised by \<open>U0\<close>. Hence for
  a valid \<open>p\<close> with \<open>U0 = 0\<close> the round trip raises nothing, returns \<open>delta_EL = 0\<close> and
  leaves every field of \<open>p\<close> as it was.
\<close>

theorem Parameters_roundtrip:
  "fst (Parameters_set (Parameters_get d p) q) =
     p\<lparr>P_V_reset := P_V_reset p + P_U0 p, P_Theta := P_Theta p + P_U0 p,
       P_LowerBound := P_LowerBound p + P_U0 p,
       P_num_of_receptors := P_num_of_receptors q\<rparr>
   \<and> (valid p \<and> P_U0 p = 0 \<longrightarrow> Parameters_set (Parameters_get d p) p = (p, Inr 0))"
proof -
  have "Parameters_set (Parameters_get d p) p = (p, Inr 0)" if "valid p" "P_U0 p = 0"
    using that
    by (cases p) (simp add: Parameters_set_def updateValue_get validate_def valid_def Let_def)
  then show ?thesis using set_get_fields by blast
qed

theorem Parameters_roundtrip_witness:
  "valid P_ex \<and> P_U0 P_ex = 0
   \<and> Parameters_set (Parameters_get Map.empty P_ex) P_ex = (P_ex, Inr 0)"
proof -
  have h: "valid P_ex \<and> P_U0 P_ex = 0" by (simp add: valid_def P_ex_def)
  show ?thesis
    using h Parameters_roundtrip [of Map.empty P_ex P_ex, THEN conjunct2] by blast
qed

section \<open>The plasticity engine\<close>

subsection \<open>The weight stays in its range\<close>

lemma clamp_d_in_range:
  assumes "dle (Fin 0) (dWmax c)"
  shows "d_in_range c (if dless nw (Fin 0) then Fin 0
                       else if dless (dWmax c) nw then dWmax c else nw)"
  using assms by (cases nw; cases "dWmax c") (simp_all add: d_in_range_def)

lemma d_learn_in_range:
  assumes "dle (Fin 0) (dWmax c)"
  shows "d_in_range c (d_learn F c w dt)"
proof (cases "dless (Fin 0) dt")
  case True
  then show ?thesis using clamp_d_in_range [OF assms] by (simp add: d_learn_def Let_def)
next
  case False
  then show ?thesis using clamp_d_in_range [OF assms] by (simp add: d_learn_def Let_def)
qed

lemma d_facilitate_in_range:
  assumes "dle (Fin 0) (dWmax c)" "ts \<noteq> []"
  shows "d_in_range c (d_facilitate F c t_lastspike d ts w)"
  using assms(2)
proof (induction ts arbitrary: w)
  case Nil
  then show ?case by simp
next
  case (Cons t ts)
  show ?case
  proof (cases "ts = []")
    case True
    then show ?thesis using d_learn_in_range [OF assms(1)] by (simp add: Let_def)
  next
    case False
    then show ?thesis using Cons.IH by (simp add: Let_def)
  qed
qed

text \<open>
  C5, as amended. For all inputs \<open>w\<close> and \<open>dt\<close> and all parameter values with
  \<open>Wmax \<ge> 0\<close>, NaN and the infinities included, and for every double arithmetic,
  \<^verbatim>\<open>learn_(w, dt)\<close> returns NaN or a value in \<open>[0, Wmax]\<close>; consequently after every
  sequential weight update inside \<^verbatim>\<open>send\<close> (after any non-empty run of history entries)
  the weight is NaN or satisfies \<open>0 \<le> weight \<le> Wmax\<close>.
\<close>

theorem learn_in_range:
  assumes "dle (Fin 0) (dWmax c)"
  shows "d_in_range c (d_learn F c w dt)
       \<and> (ts \<noteq> [] \<longrightarrow> d_in_range c (d_facilitate F c t_lastspike d ts w))"
  using d_learn_in_range [OF assms] d_facilitate_in_range [OF assms] by blast

theorem learn_in_range_witness:
  "dle (Fin 0) (dWmax dc_ex)
   \<and> d_in_range dc_ex (d_learn F_ex dc_ex (Fin (1 / 2)) (Fin 5))
   \<and> d_in_range dc_ex (d_facilitate F_ex dc_ex (Fin 0) (Fin 1) [Fin 2, Fin 3] (Fin (1 / 2)))"
proof -
  have h: "dle (Fin 0) (dWmax dc_ex)" by (simp add: dc_ex_def)
  have ne: "[Fin 2, Fin 3] \<noteq> []" by simp
  show ?thesis
    using h ne
      learn_in_range [OF h, of F_ex "Fin (1 / 2)" "Fin 5", THEN conjunct1]
      learn_in_range [OF h, of F_ex "Fin (1 / 2)" "Fin 5" "[Fin 2, Fin 3]" "Fin 0" "Fin 1",
        THEN conjunct2]
    by blast
qed

text \<open>
  The claim as stated fails: with \<open>tplus = 1/2\<close> the base of the power is \<open>-1\<close>; for
  \<open>dt = 1/2\<close> the power is NaN, so is the new weight, neither comparison of the clamp
  holds, and \<^verbatim>\<open>learn_\<close> returns NaN, which is not in \<open>[0, Wmax]\<close>. The same happens
  with \<open>tneg = 1/2\<close> for \<open>dt = -1/2\<close>.
\<close>

theorem learn_in_range_counterexample:
  "learn (c_ex\<lparr>tplus := 1 / 2\<rparr>) 0 (1 / 2) = Inl NotANumber
   \<and> learn (c_ex\<lparr>tneg := 1 / 2\<rparr>) 1 (- 1 / 2) = Inl NotANumber
   \<and> 0 \<le> Wmax (c_ex\<lparr>tplus := 1 / 2\<rparr>) \<and> 0 \<le> Wmax (c_ex\<lparr>tneg := 1 / 2\<rparr>)"
  by (simp add: learn_def decay_def std_pow_def c_ex_def)

subsection \<open>The replay of the history\<close>

text \<open>
  With a ceiling that is not negative, \<open>clamp\<close> is the composition of a maximum and a
  minimum, in either order.
\<close>

lemma clamp_max_min:
  assumes "0 \<le> hi"
  shows "clamp x 0 hi = max 0 (min hi x)" "clamp x 0 hi = min hi (max 0 x)"
  using assms by (auto simp: clamp_def)



text \<open>For a whole exponent the power is the iterated product, whatever the base.\<close>

lemma decay_whole:
  assumes "tau \<noteq> 0" "0 < k"
  shows "decay tau (real k) = Inr ((1 - 1 / tau) ^ k)"
proof -
  consider "0 < 1 - 1 / tau" | "1 - 1 / tau = 0" | "1 - 1 / tau < 0" by linarith
  then show ?thesis
  proof cases
    case 1
    then show ?thesis using assms by (simp add: decay_def std_pow_def powr_realpow)
  next
    case 2
    then show ?thesis using assms by (simp add: decay_def std_pow_def)
  next
    case 3
    then show ?thesis using assms by (simp add: decay_def std_pow_def)
  qed
qed





subsection \<open>Repeated updates with one timing difference\<close>








end
